theory Spec2Isabelle
  imports Main "HOL-Library.Word"
begin

section \<open>The subscription registry of \<open>server/internal/api/api.go\<close>\<close>

text \<open>
  The handler value \<open>apiHandler\<close> holds the registry
  \<^verbatim>\<open>subscribes map[string]map[*websocket.Conn]context.CancelFunc\<close>.
  A connection pointer and a cancel function are identities; both are numbers here.
  A Go map is a partial function. \<open>NewHandler\<close> allocates the outer map, so the outer
  map is never nil; every inner map is allocated with \<open>make\<close> at line 125.
\<close>

type_synonym conn = nat
type_synonym cancelFunc = nat
type_synonym uuid = "128 word"
type_synonym listeners = "conn \<rightharpoonup> cancelFunc"
type_synonym registry = "string \<rightharpoonup> listeners"

text \<open>
  The effects of a handler that are not part of the registry are logged, in program
  order: the calls into the store, the upgrader and the logger, the lock operations of
  \<open>h.mu\<close>, the two registry mutations and the deferred \<open>c.Close()\<close>. No function of
  the source sends on a connection, so \<open>EvSend\<close> is never logged by any of them.
\<close>

datatype event =
    EvGetRoom uuid
  | EvInsertRoom string
  | EvUpgradeOk conn
  | EvUpgradeFail
  | EvWarn string
  | EvInfo string
  | EvError string
  | EvLock
  | EvUnlock
  | EvInsert string conn
  | EvDelete string conn
  | EvClose conn
  | EvSend conn string

record apiHandler =
  subscribes :: registry
  trace :: "event list"

definition NewHandler :: apiHandler where
  "NewHandler = \<lparr>subscribes = Map.empty, trace = []\<rparr>"

definition emit :: "event \<Rightarrow> apiHandler \<Rightarrow> apiHandler" where
  "emit e h = h\<lparr>trace := trace h @ [e]\<rparr>"

subsection \<open>Registry mutations (lines 124 to 130 and line 138)\<close>

text \<open>
  Lines 124 to 126: \<^verbatim>\<open>if _, ok := h.subscribes[rawRoomId]; !ok { h.subscribes[rawRoomId] = make(...) }\<close>.
\<close>

definition ensure_room :: "string \<Rightarrow> registry \<Rightarrow> registry" where
  "ensure_room rawRoomId subs =
     (case subs rawRoomId of
        None \<Rightarrow> subs(rawRoomId \<mapsto> Map.empty)
      | Some _ \<Rightarrow> subs)"

text \<open>
  Line 130: \<^verbatim>\<open>h.subscribes[rawRoomId][c] = cancel\<close>. Indexing the outer map at a missing
  key gives a nil inner map, and an assignment into a nil map panics: that is \<open>None\<close>.
\<close>

definition assign_conn :: "string \<Rightarrow> conn \<Rightarrow> cancelFunc \<Rightarrow> registry \<Rightarrow> registry option" where
  "assign_conn rawRoomId c cancel subs =
     (case subs rawRoomId of
        None \<Rightarrow> None
      | Some m \<Rightarrow> Some (subs(rawRoomId \<mapsto> m(c \<mapsto> cancel))))"

text \<open>The two steps together: what lines 124 to 130 do to the registry.\<close>

definition register_conn :: "string \<Rightarrow> conn \<Rightarrow> cancelFunc \<Rightarrow> registry \<Rightarrow> registry option" where
  "register_conn rawRoomId c cancel subs =
     assign_conn rawRoomId c cancel (ensure_room rawRoomId subs)"

text \<open>
  Line 138: \<^verbatim>\<open>delete(h.subscribes[rawRoomId], c)\<close>. At a missing key the inner map is nil and
  \<open>delete\<close> on a nil map does nothing; otherwise the key \<open>c\<close> is removed from the inner
  map, which stays in the outer map.
\<close>

definition unregister_conn :: "string \<Rightarrow> conn \<Rightarrow> registry \<Rightarrow> registry" where
  "unregister_conn rawRoomId c subs =
     (case subs rawRoomId of
        None \<Rightarrow> subs
      | Some m \<Rightarrow> subs(rawRoomId \<mapsto> m(c := None)))"

subsection \<open>The response writer\<close>

text \<open>
  \<open>http.ResponseWriter\<close>: the header map, the status (unset until the first
  \<open>WriteHeader\<close> or \<open>Write\<close>; later calls to \<open>WriteHeader\<close> are ignored) and the body
  written so far.
\<close>

record responseWriter =
  header :: "string \<rightharpoonup> string"
  status :: "nat option"
  body :: string

definition newResponseWriter :: responseWriter where
  "newResponseWriter = \<lparr>header = Map.empty, status = None, body = []\<rparr>"

definition is_lower :: "char \<Rightarrow> bool" where
  "is_lower c = (97 \<le> (of_char c :: nat) \<and> (of_char c :: nat) \<le> 122)"

definition is_upper :: "char \<Rightarrow> bool" where
  "is_upper c = (65 \<le> (of_char c :: nat) \<and> (of_char c :: nat) \<le> 90)"

definition is_digit :: "char \<Rightarrow> bool" where
  "is_digit c = (48 \<le> (of_char c :: nat) \<and> (of_char c :: nat) \<le> 57)"

definition to_upper :: "char \<Rightarrow> char" where
  "to_upper c = (if is_lower c then char_of ((of_char c :: nat) - 32) else c)"

definition to_lower :: "char \<Rightarrow> char" where
  "to_lower c = (if is_upper c then char_of ((of_char c :: nat) + 32) else c)"

text \<open>
  \<open>textproto.CanonicalMIMEHeaderKey\<close>, through which \<open>Header.Set\<close> passes its key: a key
  with a byte that is not a token character is returned as it is; otherwise the first
  letter and every letter after a hyphen are upper case, the others lower case.
\<close>

definition validHeaderFieldByte :: "char \<Rightarrow> bool" where
  "validHeaderFieldByte c =
     (is_lower c \<or> is_upper c \<or> is_digit c \<or> c \<in> set ''!#$%&*+-.^_`|~'' \<or> c = CHR 0x27)"

fun canonical_from :: "bool \<Rightarrow> string \<Rightarrow> string" where
  "canonical_from up [] = []"
| "canonical_from up (c # cs) =
     (if up then to_upper c else to_lower c) # canonical_from (c = CHR ''-'') cs"

definition CanonicalMIMEHeaderKey :: "string \<Rightarrow> string" where
  "CanonicalMIMEHeaderKey k =
     (if list_all validHeaderFieldByte k then canonical_from True k else k)"

definition Header_Set :: "string \<Rightarrow> string \<Rightarrow> responseWriter \<Rightarrow> responseWriter" where
  "Header_Set k v w = w\<lparr>header := (header w)(CanonicalMIMEHeaderKey k \<mapsto> v)\<rparr>"

definition WriteHeader :: "nat \<Rightarrow> responseWriter \<Rightarrow> responseWriter" where
  "WriteHeader code w = (case status w of None \<Rightarrow> w\<lparr>status := Some code\<rparr> | Some _ \<Rightarrow> w)"

text \<open>\<open>Write\<close> sends status 200 first when no status has been written.\<close>

definition Write :: "string \<Rightarrow> responseWriter \<Rightarrow> responseWriter" where
  "Write data w = (let w' = WriteHeader 200 w in w'\<lparr>body := body w' @ data\<rparr>)"

text \<open>
  \<open>http.Error(w, msg, code)\<close>: plain-text content type, the status, the message and a
  newline. The headers that recent versions of \<open>net/http\<close> remove here (content length
  and the like) are set by none of the handlers.
\<close>

definition http_Error :: "string \<Rightarrow> nat \<Rightarrow> responseWriter \<Rightarrow> responseWriter" where
  "http_Error msg code w =
     Write (msg @ [CHR 0x0A])
       (WriteHeader code
         (Header_Set ''X-Content-Type-Options'' ''nosniff''
           (Header_Set ''Content-Type'' ''text/plain; charset=utf-8'' w)))"

abbreviation StatusOK :: nat where "StatusOK \<equiv> 200"
abbreviation StatusBadRequest :: nat where "StatusBadRequest \<equiv> 400"
abbreviation StatusNotFound :: nat where "StatusNotFound \<equiv> 404"
abbreviation StatusInternalServerError :: nat where "StatusInternalServerError \<equiv> 500"

subsection \<open>\<open>handleSubscribe\<close> (lines 83 to 141)\<close>

text \<open>
  The collaborators are arguments: \<open>uuid.Parse\<close> (\<open>None\<close> is its error), \<open>h.q.GetRoom\<close>
  (\<open>Inl\<close> is its error, which \<open>errors.Is\<close> compares with \<open>pgx.ErrNoRows\<close>; the room it
  returns is discarded) and \<open>h.upgrader.Upgrade\<close> (\<open>Inl\<close> is its failure, with the
  response writer as the upgrader left it; \<open>Inr\<close> is the new connection), and the cancel
  function that \<open>context.WithCancel\<close> returns.
\<close>

datatype store_error = ErrNoRows | ErrOther

record session =
  s_room :: string
  s_conn :: conn
  s_cancel :: cancelFunc

text \<open>
  What a handler has done when it stops: it has returned with a response, it waits at
  \<^verbatim>\<open><-ctx.Done()\<close> (line 134) with its session registered, it has returned after its
  teardown, or it has panicked.
\<close>

datatype outcome =
    Responded responseWriter
  | Waiting session
  | Closed session
  | Panicked

text \<open>
  Lines 84 to 132: from the request to the end of the first critical section. A panic
  at line 130 would run the deferred \<open>c.Close()\<close> and leave the lock held.
  The response writer has no state for a hijacked connection: when the upgrade fails
  only after it has taken the connection over, the real \<open>http.Error\<close> of line 113
  writes nothing, while the answer recorded here carries its status and message. The
  registry and the logged effects on that path are the same either way.
\<close>

definition subscribe_begin ::
  "(string \<Rightarrow> uuid option) \<Rightarrow> (uuid \<Rightarrow> store_error + 'room) \<Rightarrow>
   (responseWriter \<Rightarrow> responseWriter + conn) \<Rightarrow> cancelFunc \<Rightarrow>
   string \<Rightarrow> responseWriter \<Rightarrow> apiHandler \<Rightarrow> outcome \<times> apiHandler" where
  "subscribe_begin uuid_Parse GetRoom Upgrade cancel rawRoomId w h =
     (case uuid_Parse rawRoomId of
        None \<Rightarrow> (Responded (http_Error ''Invalid room id'' StatusBadRequest w), h)
      | Some roomId \<Rightarrow>
          (let h1 = emit (EvGetRoom roomId) h in
           case GetRoom roomId of
             Inl err \<Rightarrow>
               if err = ErrNoRows
               then (Responded (http_Error ''Room not found'' StatusBadRequest w), h1)
               else (Responded (http_Error ''Something went wrong'' StatusInternalServerError w), h1)
           | Inr _ \<Rightarrow>
               (case Upgrade w of
                  Inl w' \<Rightarrow>
                    (Responded (http_Error ''Failed to upgrade to WS connection'' StatusBadRequest w'),
                     emit (EvWarn ''Failed to upgrade connection.'') (emit EvUpgradeFail h1))
                | Inr c \<Rightarrow>
                    (let h2 = emit EvLock (emit (EvUpgradeOk c) h1);
                         h3 = h2\<lparr>subscribes := ensure_room rawRoomId (subscribes h2)\<rparr>;
                         h4 = emit (EvInfo ''new client connected'') h3
                     in case assign_conn rawRoomId c cancel (subscribes h4) of
                          None \<Rightarrow> (Panicked, emit (EvClose c) h4)
                        | Some subs' \<Rightarrow>
                            (Waiting \<lparr>s_room = rawRoomId, s_conn = c, s_cancel = cancel\<rparr>,
                             emit EvUnlock
                               (emit (EvInsert rawRoomId c) (h4\<lparr>subscribes := subs'\<rparr>)))))))"

text \<open>
  The context made at line 122 is done when the request's context is done or when the
  stored cancel function is called.
\<close>

datatype done_cause = ParentDone | CancelCalled

text \<open>
  Lines 136 to 141, run once \<^verbatim>\<open><-ctx.Done()\<close> returns: the second critical section, then
  the deferred \<open>c.Close()\<close> of line 118. The cause is not inspected.
\<close>

definition subscribe_end :: "done_cause \<Rightarrow> session \<Rightarrow> apiHandler \<Rightarrow> apiHandler" where
  "subscribe_end cause s h =
     (let h1 = emit EvLock h;
          h2 = emit (EvDelete (s_room s) (s_conn s))
                 (h1\<lparr>subscribes := unregister_conn (s_room s) (s_conn s) (subscribes h1)\<rparr>)
      in emit (EvClose (s_conn s)) (emit EvUnlock h2))"

text \<open>
  The whole handler, run with nothing else in between. \<open>fired\<close> says whether and why the
  context is ever done; when it never is, the handler stays at line 134.
\<close>

definition handleSubscribe ::
  "(string \<Rightarrow> uuid option) \<Rightarrow> (uuid \<Rightarrow> store_error + 'room) \<Rightarrow>
   (responseWriter \<Rightarrow> responseWriter + conn) \<Rightarrow> cancelFunc \<Rightarrow> done_cause option \<Rightarrow>
   string \<Rightarrow> responseWriter \<Rightarrow> apiHandler \<Rightarrow> outcome \<times> apiHandler" where
  "handleSubscribe uuid_Parse GetRoom Upgrade cancel fired rawRoomId w h =
     (case subscribe_begin uuid_Parse GetRoom Upgrade cancel rawRoomId w h of
        (Waiting s, h') \<Rightarrow>
          (case fired of
             None \<Rightarrow> (Waiting s, h')
           | Some cause \<Rightarrow> (Closed s, subscribe_end cause s h'))
      | r \<Rightarrow> r)"

text \<open>The HTTP status a handler has answered with, when it has answered.\<close>

definition response_status :: "outcome \<Rightarrow> nat option" where
  "response_status out = (case out of Responded rw \<Rightarrow> status rw | _ \<Rightarrow> None)"

subsection \<open>\<open>handleCreateRoom\<close> (lines 143 to 174)\<close>

text \<open>
  The response type is declared at lines 165 to 167 with the field \<open>ID\<close> and the tag
  text \<^verbatim>\<open>json"id"\<close>, which has no colon after \<open>json\<close>. \<open>json.Marshal\<close> names a field by
  \<open>reflect.StructTag.Get\<close>, which reads a tag as a sequence of \<^verbatim>\<open>key:"value"\<close> pairs and
  stops at the first piece that is not one.
\<close>

definition tag_key_char :: "char \<Rightarrow> bool" where
  "tag_key_char c =
     ((32::nat) < of_char c \<and> c \<noteq> CHR '':'' \<and> c \<noteq> CHR 0x22 \<and> (of_char c :: nat) \<noteq> 127)"

text \<open>
  The scan of a quoted value, from the character after the opening quote: the text up
  to the closing quote and the rest of the tag after it. A backslash skips the
  character that follows it. \<open>None\<close> when the quote is never closed.
\<close>

fun scan_quoted :: "string \<Rightarrow> (string \<times> string) option" where
  "scan_quoted [] = None"
| "scan_quoted [c] = (if c = CHR 0x22 then Some ([], []) else None)"
| "scan_quoted (c # d # cs) =
     (if c = CHR 0x22 then Some ([], d # cs)
      else if c = CHR 0x5C
        then (case scan_quoted cs of None \<Rightarrow> None | Some (v, r) \<Rightarrow> Some (c # d # v, r))
        else (case scan_quoted (d # cs) of None \<Rightarrow> None | Some (v, r) \<Rightarrow> Some (c # v, r)))"

text \<open>
  \<open>strconv.Unquote\<close> on the quoted value. A value without a backslash and without a
  line break is its own text. Escape sequences are not interpreted here: a value with a
  backslash is reported as an error, which the lookup treats like a malformed tag.
\<close>

definition Unquote :: "string \<Rightarrow> string option" where
  "Unquote v = (if CHR 0x5C \<in> set v \<or> CHR 0x0A \<in> set v then None else Some v)"

function StructTag_Lookup :: "string \<Rightarrow> string \<Rightarrow> string option" where
  "StructTag_Lookup tag key =
     (case dropWhile tag_key_char (dropWhile (\<lambda>c. c = CHR '' '') tag) of
        c1 # c2 # after \<Rightarrow>
          if takeWhile tag_key_char (dropWhile (\<lambda>c. c = CHR '' '') tag) = []
             \<or> c1 \<noteq> CHR '':'' \<or> c2 \<noteq> CHR 0x22
          then None
          else (case scan_quoted after of
                  None \<Rightarrow> None
                | Some (v, tag') \<Rightarrow>
                    if key = takeWhile tag_key_char (dropWhile (\<lambda>c. c = CHR '' '') tag)
                    then Unquote v
                    else StructTag_Lookup tag' key)
      | _ \<Rightarrow> None)"
  by pat_completeness auto
termination
proof (relation "measure (\<lambda>(tag, key). length tag)", goal_cases)
  case 1
  show ?case by simp
next
  case (2 tag key c1 rest c2 after x v tag')
  have shorter: "scan_quoted xs = Some (u, r) \<Longrightarrow> length r < length xs" for xs u r
    by (induction xs arbitrary: u r rule: scan_quoted.induct)
       (auto split: if_splits option.splits)
  have "length tag' < length after"
    using 2 shorter [of after v tag'] by auto
  moreover have "length (c1 # c2 # after) \<le> length tag"
    using 2 length_dropWhile_le [of tag_key_char "dropWhile (\<lambda>c. c = CHR '' '') tag"]
      length_dropWhile_le [of "\<lambda>c. c = CHR '' ''" tag]
    by (metis le_trans)
  ultimately show ?case by simp
qed

declare StructTag_Lookup.simps [simp del]

definition StructTag_Get :: "string \<Rightarrow> string \<Rightarrow> string" where
  "StructTag_Get tag key = (case StructTag_Lookup tag key of None \<Rightarrow> [] | Some v \<Rightarrow> v)"

text \<open>
  The field naming of \<open>encoding/json\<close>: an unexported field and a field tagged \<open>-\<close> are
  left out; the name is the tag up to its first comma when that is a valid name, and
  the Go field name otherwise. Letters beyond ASCII are not counted as valid here.
\<close>

definition isValidTag :: "string \<Rightarrow> bool" where
  "isValidTag s =
     (s \<noteq> [] \<and>
      list_all (\<lambda>c. c \<in> set ''!#$%&()*+-./:;<=>?@[]^_{|}~ '' \<or> is_lower c \<or> is_upper c \<or> is_digit c) s)"

definition json_field_key :: "string \<Rightarrow> string \<Rightarrow> string option" where
  "json_field_key fieldName tag =
     (let t = StructTag_Get tag ''json''; name = takeWhile (\<lambda>c. c \<noteq> CHR '','') t in
      if fieldName = [] \<or> \<not> is_upper (hd fieldName) then None
      else if t = ''-'' then None
      else if isValidTag name then Some name
      else Some fieldName)"

datatype json = JString string | JObject "(string \<times> json) list"

text \<open>
  A struct type is the list of its fields, each with its name and its tag; a struct
  value gives the fields' values in the same order. The structs of the source have one
  field each, so clashes between the keys of two fields do not arise.
\<close>

fun struct_members :: "(string \<times> string) list \<Rightarrow> json list \<Rightarrow> (string \<times> json) list" where
  "struct_members ((fieldName, tag) # fs) (v # vs) =
     (case json_field_key fieldName tag of
        None \<Rightarrow> struct_members fs vs
      | Some k \<Rightarrow> (k, v) # struct_members fs vs)"
| "struct_members _ _ = []"

text \<open>
  \<open>json.Marshal\<close> of a struct value: the bytes of the object, by the encoder of JSON
  values \<open>enc\<close>, and no error.
\<close>

definition json_Marshal ::
  "(json \<Rightarrow> string) \<Rightarrow> (string \<times> string) list \<Rightarrow> json list \<Rightarrow> string \<times> string option" where
  "json_Marshal enc fs vals = (enc (JObject (struct_members fs vals)), None)"

text \<open>Lines 165 to 167: the field \<open>ID\<close> with the tag text \<^verbatim>\<open>json"id"\<close>.\<close>

definition response_fields :: "(string \<times> string) list" where
  "response_fields = [(''ID'', ''json'' @ [CHR 0x22] @ ''id'' @ [CHR 0x22])]"

text \<open>Lines 144 to 146: the field \<open>Theme\<close> with the tag text \<^verbatim>\<open>json:"theme"\<close>.\<close>

definition body_fields :: "(string \<times> string) list" where
  "body_fields = [(''Theme'', ''json:'' @ [CHR 0x22] @ ''theme'' @ [CHR 0x22])]"

text \<open>
  The arguments: what decoding the request body gave (\<open>None\<close> is the error, \<open>Some\<close> the
  theme), \<open>h.q.InsertRoom\<close>, \<open>roomId.String()\<close>, the encoder of JSON values, and the
  error that \<open>w.Write\<close> returns. The handler binds both errors of its last lines to \<open>_\<close>.
\<close>

definition handleCreateRoom ::
  "string option \<Rightarrow> (string \<Rightarrow> store_error + uuid) \<Rightarrow> (uuid \<Rightarrow> string) \<Rightarrow>
   (json \<Rightarrow> string) \<Rightarrow> string option \<Rightarrow>
   responseWriter \<Rightarrow> apiHandler \<Rightarrow> responseWriter \<times> apiHandler" where
  "handleCreateRoom decoded InsertRoom uuid_String enc write_err w h =
     (case decoded of
        None \<Rightarrow> (http_Error ''Invalid JSON'' StatusBadRequest w, h)
      | Some theme \<Rightarrow>
          (let h1 = emit (EvInsertRoom theme) h in
           case InsertRoom theme of
             Inl err \<Rightarrow>
               (http_Error ''Something went wrong'' StatusInternalServerError w,
                emit (EvError ''Failed to insert room'') h1)
           | Inr roomId \<Rightarrow>
               (let (data, _) = json_Marshal enc response_fields [JString (uuid_String roomId)];
                    w1 = Header_Set ''content-type'' ''application/json'' w;
                    (w2, _) = (Write data w1, write_err)
                in (w2, h1))))"

subsection \<open>The handlers with an empty body (lines 176 to 188)\<close>

definition handleGetRooms :: "responseWriter \<Rightarrow> apiHandler \<Rightarrow> responseWriter \<times> apiHandler" where
  "handleGetRooms w h = (w, h)"

definition handleMarkMessageAsAnswered :: "responseWriter \<Rightarrow> apiHandler \<Rightarrow> responseWriter \<times> apiHandler" where
  "handleMarkMessageAsAnswered w h = (w, h)"

definition handleRemoveReactFromMessage :: "responseWriter \<Rightarrow> apiHandler \<Rightarrow> responseWriter \<times> apiHandler" where
  "handleRemoveReactFromMessage w h = (w, h)"

definition handleCreateRoomMessage :: "responseWriter \<Rightarrow> apiHandler \<Rightarrow> responseWriter \<times> apiHandler" where
  "handleCreateRoomMessage w h = (w, h)"

definition handleGetRoomMessage :: "responseWriter \<Rightarrow> apiHandler \<Rightarrow> responseWriter \<times> apiHandler" where
  "handleGetRoomMessage w h = (w, h)"

definition handleGetRoomMessages :: "responseWriter \<Rightarrow> apiHandler \<Rightarrow> responseWriter \<times> apiHandler" where
  "handleGetRoomMessages w h = (w, h)"

definition handleReactToMessage :: "responseWriter \<Rightarrow> apiHandler \<Rightarrow> responseWriter \<times> apiHandler" where
  "handleReactToMessage w h = (w, h)"

text \<open>What has been sent to the sessions so far: the \<open>EvSend\<close> entries of the log.\<close>

fun sent_to :: "event \<Rightarrow> (conn \<times> string) option" where
  "sent_to (EvSend c payload) = Some (c, payload)"
| "sent_to _ = None"

definition deliveries :: "apiHandler \<Rightarrow> (conn \<times> string) list" where
  "deliveries h = List.map_filter sent_to (trace h)"

section \<open>Facts about the operations\<close>

lemma register_conn_eq:
  "register_conn r c k subs =
     Some (subs(r \<mapsto> (case subs r of None \<Rightarrow> Map.empty | Some m \<Rightarrow> m)(c \<mapsto> k)))"
  by (simp add: register_conn_def assign_conn_def ensure_room_def split: option.splits)

lemma unregister_conn_absent:
  "(case subs r of None \<Rightarrow> True | Some m \<Rightarrow> m c = None) \<Longrightarrow> unregister_conn r c subs = subs"
  by (auto simp: unregister_conn_def fun_upd_idem split: option.splits)

lemma unregister_conn_twice:
  "unregister_conn r c (unregister_conn r c subs) = unregister_conn r c subs"
  by (simp add: unregister_conn_def split: option.splits)

lemma canonical_content_type [simp]:
  "CanonicalMIMEHeaderKey ''content-type'' = ''Content-Type''"
  "CanonicalMIMEHeaderKey ''Content-Type'' = ''Content-Type''"
  "CanonicalMIMEHeaderKey ''X-Content-Type-Options'' = ''X-Content-Type-Options''"
  by code_simp+

lemma status_http_Error: "status w = None \<Longrightarrow> status (http_Error msg code w) = Some code"
  by (simp add: http_Error_def Write_def WriteHeader_def Header_Set_def)

lemma body_http_Error: "body (http_Error msg code w) = body w @ msg @ [CHR 0x0A]"
  by (simp add: http_Error_def Write_def WriteHeader_def Header_Set_def Let_def split: option.splits)

lemma subscribe_begin_bad_id:
  "uuid_Parse raw = None \<Longrightarrow>
   subscribe_begin uuid_Parse GetRoom Upgrade cancel raw w h =
     (Responded (http_Error ''Invalid room id'' StatusBadRequest w), h)"
  by (simp add: subscribe_begin_def)

lemma subscribe_begin_no_rows:
  "uuid_Parse raw = Some u \<Longrightarrow> GetRoom u = Inl ErrNoRows \<Longrightarrow>
   subscribe_begin uuid_Parse GetRoom Upgrade cancel raw w h =
     (Responded (http_Error ''Room not found'' StatusBadRequest w), emit (EvGetRoom u) h)"
  by (simp add: subscribe_begin_def)

lemma subscribe_begin_store_error:
  "uuid_Parse raw = Some u \<Longrightarrow> GetRoom u = Inl ErrOther \<Longrightarrow>
   subscribe_begin uuid_Parse GetRoom Upgrade cancel raw w h =
     (Responded (http_Error ''Something went wrong'' StatusInternalServerError w),
      emit (EvGetRoom u) h)"
  by (simp add: subscribe_begin_def)

lemma subscribe_begin_upgrade_failed:
  "uuid_Parse raw = Some u \<Longrightarrow> GetRoom u = Inr room \<Longrightarrow> Upgrade w = Inl w' \<Longrightarrow>
   subscribe_begin uuid_Parse GetRoom Upgrade cancel raw w h =
     (Responded (http_Error ''Failed to upgrade to WS connection'' StatusBadRequest w'),
      emit (EvWarn ''Failed to upgrade connection.'') (emit EvUpgradeFail (emit (EvGetRoom u) h)))"
  by (simp add: subscribe_begin_def)

lemma subscribe_begin_ok:
  assumes "uuid_Parse raw = Some u" "GetRoom u = Inr room" "Upgrade w = Inr c"
  shows "subscribe_begin uuid_Parse GetRoom Upgrade cancel raw w h =
     (Waiting \<lparr>s_room = raw, s_conn = c, s_cancel = cancel\<rparr>,
      h\<lparr>subscribes := (subscribes h)(raw \<mapsto>
             (case subscribes h raw of None \<Rightarrow> Map.empty | Some m \<Rightarrow> m)(c \<mapsto> cancel)),
        trace := trace h @ [EvGetRoom u, EvUpgradeOk c, EvLock, EvInfo ''new client connected'',
                           EvInsert raw c, EvUnlock]\<rparr>)"
  using assms
  by (simp add: subscribe_begin_def ensure_room_def assign_conn_def emit_def Let_def
        split: option.splits)

lemma subscribe_end_eq:
  "subscribe_end cause s h =
     h\<lparr>subscribes := unregister_conn (s_room s) (s_conn s) (subscribes h),
       trace := trace h @ [EvLock, EvDelete (s_room s) (s_conn s), EvUnlock, EvClose (s_conn s)]\<rparr>"
  by (simp add: subscribe_end_def emit_def Let_def)

lemma handleSubscribe_responded:
  "subscribe_begin uuid_Parse GetRoom Upgrade cancel raw w h = (Responded rw, h') \<Longrightarrow>
   handleSubscribe uuid_Parse GetRoom Upgrade cancel fired raw w h = (Responded rw, h')"
  by (simp add: handleSubscribe_def)

lemma handleSubscribe_fired:
  "subscribe_begin uuid_Parse GetRoom Upgrade cancel raw w h = (Waiting s, h') \<Longrightarrow>
   handleSubscribe uuid_Parse GetRoom Upgrade cancel (Some cause) raw w h =
     (Closed s, subscribe_end cause s h')"
  by (simp add: handleSubscribe_def)

lemma unregister_conn_removed:
  "unregister_conn r c subs r = Some m \<Longrightarrow> m c = None"
  by (auto simp: unregister_conn_def split: option.splits)

lemma unregister_conn_other_room:
  "r' \<noteq> r \<Longrightarrow> unregister_conn r c subs r' = subs r'"
  by (simp add: unregister_conn_def split: option.splits)

lemma handleSubscribe_bad_id:
  "uuid_Parse raw = None \<Longrightarrow>
   handleSubscribe uuid_Parse GetRoom Upgrade cancel fired raw w h =
     (Responded (http_Error ''Invalid room id'' StatusBadRequest w), h)"
  by (simp add: handleSubscribe_def subscribe_begin_bad_id)

lemma handleSubscribe_no_rows:
  "uuid_Parse raw = Some u \<Longrightarrow> GetRoom u = Inl ErrNoRows \<Longrightarrow>
   handleSubscribe uuid_Parse GetRoom Upgrade cancel fired raw w h =
     (Responded (http_Error ''Room not found'' StatusBadRequest w), emit (EvGetRoom u) h)"
  by (simp add: handleSubscribe_def subscribe_begin_no_rows)

lemma handleSubscribe_store_error:
  "uuid_Parse raw = Some u \<Longrightarrow> GetRoom u = Inl ErrOther \<Longrightarrow>
   handleSubscribe uuid_Parse GetRoom Upgrade cancel fired raw w h =
     (Responded (http_Error ''Something went wrong'' StatusInternalServerError w),
      emit (EvGetRoom u) h)"
  by (simp add: handleSubscribe_def subscribe_begin_store_error)

lemma handleSubscribe_upgrade_failed:
  "uuid_Parse raw = Some u \<Longrightarrow> GetRoom u = Inr room \<Longrightarrow> Upgrade w = Inl w' \<Longrightarrow>
   handleSubscribe uuid_Parse GetRoom Upgrade cancel fired raw w h =
     (Responded (http_Error ''Failed to upgrade to WS connection'' StatusBadRequest w'),
      emit (EvWarn ''Failed to upgrade connection.'') (emit EvUpgradeFail (emit (EvGetRoom u) h)))"
  by (simp add: handleSubscribe_def subscribe_begin_upgrade_failed)

lemma handleSubscribe_closed:
  assumes "uuid_Parse raw = Some u" "GetRoom u = Inr room" "Upgrade w = Inr c"
  shows "handleSubscribe uuid_Parse GetRoom Upgrade cancel (Some cause) raw w h =
     (Closed \<lparr>s_room = raw, s_conn = c, s_cancel = cancel\<rparr>,
      h\<lparr>subscribes := unregister_conn raw c ((subscribes h)(raw \<mapsto>
             (case subscribes h raw of None \<Rightarrow> Map.empty | Some m \<Rightarrow> m)(c \<mapsto> cancel))),
        trace := trace h @ [EvGetRoom u, EvUpgradeOk c, EvLock, EvInfo ''new client connected'',
                           EvInsert raw c, EvUnlock,
                           EvLock, EvDelete raw c, EvUnlock, EvClose c]\<rparr>)"
  using subscribe_begin_ok [of uuid_Parse raw u GetRoom room Upgrade w c cancel h] assms
  by (simp add: handleSubscribe_def subscribe_end_eq)

lemma handleSubscribe_waiting:
  assumes "uuid_Parse raw = Some u" "GetRoom u = Inr room" "Upgrade w = Inr c"
  shows "handleSubscribe uuid_Parse GetRoom Upgrade cancel None raw w h =
     subscribe_begin uuid_Parse GetRoom Upgrade cancel raw w h"
  using subscribe_begin_ok [of uuid_Parse raw u GetRoom room Upgrade w c cancel h] assms
  by (simp add: handleSubscribe_def)

lemma response_members: "struct_members response_fields [v] = [(''ID'', v)]"
  by code_simp

lemma response_tag_ignored: "StructTag_Lookup (snd (hd response_fields)) ''json'' = None"
  by code_simp

lemma body_tag_read: "StructTag_Lookup (snd (hd body_fields)) ''json'' = Some ''theme''"
  by code_simp

lemma handleCreateRoom_ok:
  assumes "InsertRoom theme = Inr roomId"
  shows "handleCreateRoom (Some theme) InsertRoom uuid_String enc write_err w h =
     (Write (enc (JObject [(''ID'', JString (uuid_String roomId))]))
        (Header_Set ''content-type'' ''application/json'' w),
      emit (EvInsertRoom theme) h)"
  using assms by (simp add: handleCreateRoom_def json_Marshal_def response_members)

lemma deliveries_append:
  "deliveries (h\<lparr>trace := trace h @ es\<rparr>) = deliveries h @ List.map_filter sent_to es"
  by (simp add: deliveries_def map_filter_def)

lemma deliveries_emit: "sent_to e = None \<Longrightarrow> deliveries (emit e h) = deliveries h"
  by (simp add: emit_def deliveries_append map_filter_def)

lemma deliveries_subscribes_update [simp]:
  "deliveries (h\<lparr>subscribes := x\<rparr>) = deliveries h"
  by (simp add: deliveries_def)

lemma deliveries_subscribe_begin:
  "deliveries (snd (subscribe_begin uuid_Parse GetRoom Upgrade cancel raw w h)) = deliveries h"
  by (simp add: subscribe_begin_def deliveries_emit Let_def
           split: option.splits sum.splits)

lemma deliveries_subscribe_end: "deliveries (subscribe_end cause s h) = deliveries h"
  by (simp add: subscribe_end_def deliveries_emit Let_def)

lemma handleCreateRoom_keeps:
  "deliveries (snd (handleCreateRoom decoded InsertRoom uuid_String enc write_err w h)) = deliveries h
   \<and> subscribes (snd (handleCreateRoom decoded InsertRoom uuid_String enc write_err w h)) = subscribes h"
  by (simp add: handleCreateRoom_def json_Marshal_def emit_def deliveries_append map_filter_def
           Let_def split: option.splits sum.splits)

lemma subscribe_begin_keeps:
  "\<forall>r m c. subscribes h r = Some m \<and> m c \<noteq> None \<longrightarrow>
     (\<exists>m'. subscribes (snd (subscribe_begin uuid_Parse GetRoom Upgrade cancel raw w h)) r = Some m'
           \<and> m' c \<noteq> None)"
  by (auto simp: subscribe_begin_def ensure_room_def assign_conn_def emit_def Let_def
           split: option.splits sum.splits)

lemma subscribe_end_keeps:
  "\<forall>r m c. subscribes h r = Some m \<and> (r \<noteq> s_room s \<or> c \<noteq> s_conn s) \<longrightarrow>
     (\<exists>m'. subscribes (subscribe_end cause s h) r = Some m' \<and> m' c = m c)"
  by (auto simp: subscribe_end_eq unregister_conn_def split: option.splits)

section \<open>The claims\<close>

text \<open>
  C4, as the code has it. When the room id parses and the room lookup reports that no
  row exists, \<open>handleSubscribe\<close> answers with the status 400 (\<open>http.StatusBadRequest\<close>)
  and the message \<open>Room not found\<close>; the only effect it has had is the lookup itself, so
  the connection is not upgraded, and the registry is as it was.
\<close>

theorem C4_missing_room_answered_400:
  assumes "uuid_Parse raw = Some u" and "GetRoom u = Inl ErrNoRows" and "status w = None"
    and "handleSubscribe uuid_Parse GetRoom Upgrade cancel fired raw w h = (out, h')"
  shows "(\<exists>rw. out = Responded rw \<and> status rw = Some StatusBadRequest
            \<and> body rw = body w @ ''Room not found'' @ [CHR 0x0A])
     \<and> trace h' = trace h @ [EvGetRoom u] \<and> subscribes h' = subscribes h"
  using assms
  by (auto simp: handleSubscribe_no_rows status_http_Error body_http_Error emit_def)

theorem C4_witness:
  "handleSubscribe (\<lambda>s. Some 7) (\<lambda>u. Inl ErrNoRows) (\<lambda>w. Inr 1) 9 None
       ''0e2a'' newResponseWriter NewHandler
     = (Responded (http_Error ''Room not found'' StatusBadRequest newResponseWriter),
        emit (EvGetRoom 7) NewHandler)
   \<and> status (http_Error ''Room not found'' StatusBadRequest newResponseWriter) = Some StatusBadRequest
   \<and> trace (emit (EvGetRoom 7) NewHandler) = [EvGetRoom 7]
   \<and> subscribes (emit (EvGetRoom 7) NewHandler) = subscribes NewHandler"
  using C4_missing_room_answered_400 [of "\<lambda>s. Some 7" "''0e2a''" 7 "\<lambda>u. Inl ErrNoRows"
      newResponseWriter "\<lambda>w. Inr 1" 9 None NewHandler
      "Responded (http_Error ''Room not found'' StatusBadRequest newResponseWriter)"
      "emit (EvGetRoom 7) NewHandler"]
  by (simp add: handleSubscribe_no_rows newResponseWriter_def NewHandler_def status_http_Error)

text \<open>
  C4, as stated, read with the status of a missing resource: at a room id that parses
  and a lookup that reports no such row, the status of the answer is 400 and not 404.
\<close>

theorem C4_counterexample:
  "response_status (fst (handleSubscribe (\<lambda>s. Some 7) (\<lambda>u. Inl ErrNoRows) (\<lambda>w. Inr 1) 9 None
       ''0e2a'' newResponseWriter NewHandler)) = Some StatusBadRequest
   \<and> response_status (fst (handleSubscribe (\<lambda>s. Some 7) (\<lambda>u. Inl ErrNoRows) (\<lambda>w. Inr 1) 9 None
       ''0e2a'' newResponseWriter NewHandler)) \<noteq> Some StatusNotFound"
  by (simp add: handleSubscribe_no_rows response_status_def status_http_Error newResponseWriter_def)

text \<open>
  C5. When the room id fails to parse, \<open>handleSubscribe\<close> answers with the status 400
  and the message \<open>Invalid room id\<close>; it has had no effect at all (no lookup in the store,
  no upgrade), and the registry is as it was.
\<close>

theorem C5_invalid_room_id_rejected:
  assumes "uuid_Parse raw = None" and "status w = None"
    and "handleSubscribe uuid_Parse GetRoom Upgrade cancel fired raw w h = (out, h')"
  shows "(\<exists>rw. out = Responded rw \<and> status rw = Some StatusBadRequest
            \<and> body rw = body w @ ''Invalid room id'' @ [CHR 0x0A])
     \<and> trace h' = trace h \<and> subscribes h' = subscribes h"
  using assms
  by (auto simp: handleSubscribe_bad_id status_http_Error body_http_Error)

theorem C5_witness:
  "handleSubscribe (\<lambda>s. None) (\<lambda>u. Inr ()) (\<lambda>w. Inr 1) 9 None ''not-a-uuid'' newResponseWriter NewHandler
     = (Responded (http_Error ''Invalid room id'' StatusBadRequest newResponseWriter), NewHandler)
   \<and> status (http_Error ''Invalid room id'' StatusBadRequest newResponseWriter) = Some StatusBadRequest
   \<and> subscribes NewHandler ''not-a-uuid'' = None"
  using C5_invalid_room_id_rejected [of "\<lambda>s. None" "''not-a-uuid''" newResponseWriter
      "\<lambda>u. Inr ()" "\<lambda>w. Inr 1" 9 None NewHandler
      "Responded (http_Error ''Invalid room id'' StatusBadRequest newResponseWriter)" NewHandler]
  by (simp add: handleSubscribe_bad_id newResponseWriter_def NewHandler_def status_http_Error)

text \<open>
  C6. Once the room id has parsed, the room has been found and the upgrade has given a
  connection, the registration of lines 120 to 132 cannot fail: the handler reaches its
  wait with the session registered. The room's listener set is created when the room
  had none, the connection is added to it with its cancel function, and the listener
  set of every other room id is as it was.
\<close>

theorem C6_registration_never_fails:
  assumes "uuid_Parse raw = Some u" and "GetRoom u = Inr room" and "Upgrade w = Inr c"
    and "subscribe_begin uuid_Parse GetRoom Upgrade cancel raw w h = (out, h')"
  shows "out = Waiting \<lparr>s_room = raw, s_conn = c, s_cancel = cancel\<rparr>
     \<and> register_conn raw c cancel (subscribes h) = Some (subscribes h')
     \<and> (subscribes h raw = None \<longrightarrow> subscribes h' raw = Some [c \<mapsto> cancel])
     \<and> (\<forall>m. subscribes h raw = Some m \<longrightarrow> subscribes h' raw = Some (m(c \<mapsto> cancel)))
     \<and> (\<forall>r. r \<noteq> raw \<longrightarrow> subscribes h' r = subscribes h r)"
  using assms subscribe_begin_ok [of uuid_Parse raw u GetRoom room Upgrade w c cancel h]
  by (auto simp: register_conn_eq)

theorem C6_witness:
  "subscribe_begin (\<lambda>s. if s = ''0e2a'' then Some 7 else None) (\<lambda>u. Inr ()) (\<lambda>w. Inr 1) 9
         ''0e2a'' newResponseWriter NewHandler
     = (Waiting \<lparr>s_room = ''0e2a'', s_conn = 1, s_cancel = 9\<rparr>,
        \<lparr>subscribes = [''0e2a'' \<mapsto> [1 \<mapsto> 9]],
         trace = [EvGetRoom 7, EvUpgradeOk 1, EvLock, EvInfo ''new client connected'',
                  EvInsert ''0e2a'' 1, EvUnlock]\<rparr>)
   \<and> register_conn ''0e2a'' 1 9 (subscribes NewHandler) = Some [''0e2a'' \<mapsto> [1 \<mapsto> 9]]
   \<and> subscribes NewHandler ''0e2a'' = None"
  using C6_registration_never_fails [of "\<lambda>s. if s = ''0e2a'' then Some 7 else None" "''0e2a''" 7
      "\<lambda>u. Inr ()" "()" "\<lambda>w. Inr 1" newResponseWriter 1 9 NewHandler
      "Waiting \<lparr>s_room = ''0e2a'', s_conn = 1, s_cancel = 9\<rparr>"
      "\<lparr>subscribes = [''0e2a'' \<mapsto> [1 \<mapsto> 9]],
         trace = [EvGetRoom 7, EvUpgradeOk 1, EvLock, EvInfo ''new client connected'',
                  EvInsert ''0e2a'' 1, EvUnlock]\<rparr>"]
  by (simp add: subscribe_begin_ok [of _ _ 7 _ "()"] NewHandler_def)

text \<open>
  C7. Removing a connection that is not in the room's listener set, because the room id
  has no entry or because its set does not hold the connection, leaves the registry as
  it was, and removing twice is removing once. \<open>unregister_conn\<close> has no failing
  branch. The same holds of the registry after the handler's teardown.
\<close>

theorem C7_unregister_absent_is_noop:
  "((subs r = None \<or> (\<exists>m. subs r = Some m \<and> m c = None)) \<longrightarrow> unregister_conn r c subs = subs)
   \<and> unregister_conn r c (unregister_conn r c subs) = unregister_conn r c subs
   \<and> ((subscribes h (s_room s) = None \<or> (\<exists>m. subscribes h (s_room s) = Some m \<and> m (s_conn s) = None))
        \<longrightarrow> subscribes (subscribe_end cause s h) = subscribes h)
   \<and> subscribes (subscribe_end cause' s (subscribe_end cause s h)) = subscribes (subscribe_end cause s h)"
  by (auto simp: subscribe_end_eq unregister_conn_twice intro!: unregister_conn_absent)

theorem C7_witness:
  "[''0e2a'' \<mapsto> [1 \<mapsto> 9]] ''0e2a'' = Some [1 \<mapsto> (9::nat)] \<and> [1 \<mapsto> (9::nat)] (2::nat) = None
   \<and> unregister_conn ''0e2a'' 2 [''0e2a'' \<mapsto> [1 \<mapsto> 9]] = [''0e2a'' \<mapsto> [1 \<mapsto> 9]]
   \<and> unregister_conn ''ffff'' 1 [''0e2a'' \<mapsto> [1 \<mapsto> 9]] = [''0e2a'' \<mapsto> [1 \<mapsto> 9]]"
  using C7_unregister_absent_is_noop [of "[''0e2a'' \<mapsto> [1 \<mapsto> 9]]" "''0e2a''" 2 NewHandler
      "\<lparr>s_room = ''0e2a'', s_conn = 1, s_cancel = 9\<rparr>" ParentDone CancelCalled]
    C7_unregister_absent_is_noop [of "[''0e2a'' \<mapsto> [1 \<mapsto> 9]]" "''ffff''" 1 NewHandler
      "\<lparr>s_room = ''0e2a'', s_conn = 1, s_cancel = 9\<rparr>" ParentDone CancelCalled]
  by simp

text \<open>
  C8. Removing a connection leaves the keys of the registry as they were, so the room's
  entry stays even when its set becomes empty; in the room's set only the removed
  connection is gone; the set of every other room id is as it was. The teardown of the
  handler changes the registry by exactly this removal.
\<close>

theorem C8_unregister_frame:
  "dom (unregister_conn r c subs) = dom subs
   \<and> (\<forall>m. subs r = Some m \<longrightarrow> unregister_conn r c subs r = Some (m(c := None)))
   \<and> (\<forall>m m'. subs r = Some m \<and> unregister_conn r c subs r = Some m' \<longrightarrow>
         m' c = None \<and> (\<forall>c'. c' \<noteq> c \<longrightarrow> m' c' = m c'))
   \<and> (\<forall>r'. r' \<noteq> r \<longrightarrow> unregister_conn r c subs r' = subs r')
   \<and> subscribes (subscribe_end cause s h) = unregister_conn (s_room s) (s_conn s) (subscribes h)"
  by (auto simp: unregister_conn_def subscribe_end_eq split: option.splits)

theorem C8_witness:
  "unregister_conn ''0e2a'' 1 [''0e2a'' \<mapsto> [1 \<mapsto> 9], ''77aa'' \<mapsto> [3 \<mapsto> 4]] ''0e2a'' = Some Map.empty
   \<and> unregister_conn ''0e2a'' 1 [''0e2a'' \<mapsto> [1 \<mapsto> 9], ''77aa'' \<mapsto> [3 \<mapsto> 4]] ''77aa'' = Some [3 \<mapsto> 4]
   \<and> dom (unregister_conn ''0e2a'' 1 [''0e2a'' \<mapsto> [1 \<mapsto> 9], ''77aa'' \<mapsto> [3 \<mapsto> 4]]) = {''0e2a'', ''77aa''}"
  using C8_unregister_frame [of "''0e2a''" 1 "[''0e2a'' \<mapsto> [1 \<mapsto> 9], ''77aa'' \<mapsto> [3 \<mapsto> 4]]"
      ParentDone "\<lparr>s_room = ''0e2a'', s_conn = 1, s_cancel = 9\<rparr>" NewHandler]
  by auto

text \<open>
  C2. On every setup error of the subscribe handler (a room id that does not parse, a
  room lookup that fails, an upgrade that fails) the handler returns with an answer and
  the registry is as it was. In the events of any run of the handler's first part, an
  insertion of a connection into the registry comes after the successful upgrade that
  produced that connection; and the registry differs after the first part only when the
  upgrade has succeeded and the handler waits with the whole session registered.
\<close>

theorem C2_no_registration_before_upgrade:
  assumes "subscribe_begin uuid_Parse GetRoom Upgrade cancel raw w h = (out, h')"
  shows "((uuid_Parse raw = None
           \<or> (\<exists>u e. uuid_Parse raw = Some u \<and> GetRoom u = Inl e)
           \<or> (\<exists>u room w'. uuid_Parse raw = Some u \<and> GetRoom u = Inr room \<and> Upgrade w = Inl w'))
          \<longrightarrow> (\<exists>rw. out = Responded rw) \<and> subscribes h' = subscribes h
              \<and> handleSubscribe uuid_Parse GetRoom Upgrade cancel fired raw w h = (out, h'))
     \<and> (\<forall>r c. EvInsert r c \<in> set (drop (length (trace h)) (trace h')) \<longrightarrow>
            EvUpgradeOk c \<in> set (takeWhile (\<lambda>e. e \<noteq> EvInsert r c) (drop (length (trace h)) (trace h'))))
     \<and> (subscribes h' \<noteq> subscribes h \<longrightarrow>
            (\<exists>c. Upgrade w = Inr c \<and> out = Waiting \<lparr>s_room = raw, s_conn = c, s_cancel = cancel\<rparr>))"
proof (cases "uuid_Parse raw")
  case None
  with assms show ?thesis
    by (auto simp: subscribe_begin_bad_id handleSubscribe_bad_id)
next
  case (Some u)
  show ?thesis
  proof (cases "GetRoom u")
    case (Inl e)
    show ?thesis
    proof (cases e)
      case ErrNoRows
      with assms Some Inl show ?thesis
        by (auto simp: subscribe_begin_no_rows handleSubscribe_no_rows emit_def)
    next
      case ErrOther
      with assms Some Inl show ?thesis
        by (auto simp: subscribe_begin_store_error handleSubscribe_store_error emit_def)
    qed
  next
    case (Inr room)
    show ?thesis
    proof (cases "Upgrade w")
      case (Inl w')
      with assms Some Inr show ?thesis
        using subscribe_begin_upgrade_failed [of uuid_Parse raw u GetRoom room Upgrade w w' cancel h]
          handleSubscribe_upgrade_failed [of uuid_Parse raw u GetRoom room Upgrade w w' cancel fired h]
        by (auto simp: emit_def)
    next
      case (Inr c)
      with assms Some \<open>GetRoom u = Inr room\<close> show ?thesis
        using subscribe_begin_ok [of uuid_Parse raw u GetRoom room Upgrade w c cancel h]
        by auto
    qed
  qed
qed

theorem C2_witness:
  "subscribe_begin (\<lambda>s. Some 7) (\<lambda>u. Inr ()) (\<lambda>w. Inl w) 9 ''0e2a'' newResponseWriter NewHandler =
     (Responded (http_Error ''Failed to upgrade to WS connection'' StatusBadRequest newResponseWriter),
      \<lparr>subscribes = Map.empty,
       trace = [EvGetRoom 7, EvUpgradeFail, EvWarn ''Failed to upgrade connection.'']\<rparr>)
   \<and> handleSubscribe (\<lambda>s. Some 7) (\<lambda>u. Inr ()) (\<lambda>w. Inl w) 9 None ''0e2a'' newResponseWriter NewHandler =
     (Responded (http_Error ''Failed to upgrade to WS connection'' StatusBadRequest newResponseWriter),
      \<lparr>subscribes = Map.empty,
       trace = [EvGetRoom 7, EvUpgradeFail, EvWarn ''Failed to upgrade connection.'']\<rparr>)"
  using C2_no_registration_before_upgrade [of "\<lambda>s. Some 7" "\<lambda>u. Inr ()" "\<lambda>w. Inl w" 9 "''0e2a''"
      newResponseWriter NewHandler
      "Responded (http_Error ''Failed to upgrade to WS connection'' StatusBadRequest newResponseWriter)"
      "\<lparr>subscribes = Map.empty,
       trace = [EvGetRoom 7, EvUpgradeFail, EvWarn ''Failed to upgrade connection.'']\<rparr>" None]
  by (simp add: subscribe_begin_upgrade_failed [of _ _ 7 _ "()"] NewHandler_def emit_def)

text \<open>
  C3. When the room id has parsed, the room has been found, the upgrade has given a
  connection and the context is done, for either cause, the handler returns after
  removing its connection from the registry exactly once and closing it exactly once,
  the close being its last effect; the connection is then not in the room's listener
  set. The two causes give the same run. The same counts hold of the teardown from any
  state the registry has reached in between.
\<close>

theorem C3_teardown_exactly_once:
  assumes "uuid_Parse raw = Some u" and "GetRoom u = Inr room" and "Upgrade w = Inr c"
    and "handleSubscribe uuid_Parse GetRoom Upgrade cancel (Some cause) raw w h = (out, h')"
  shows "out = Closed \<lparr>s_room = raw, s_conn = c, s_cancel = cancel\<rparr>
     \<and> count_list (drop (length (trace h)) (trace h')) (EvDelete raw c) = 1
     \<and> count_list (drop (length (trace h)) (trace h')) (EvClose c) = 1
     \<and> last (trace h') = EvClose c
     \<and> (\<forall>m. subscribes h' raw = Some m \<longrightarrow> m c = None)
     \<and> handleSubscribe uuid_Parse GetRoom Upgrade cancel (Some ParentDone) raw w h =
         handleSubscribe uuid_Parse GetRoom Upgrade cancel (Some CancelCalled) raw w h
     \<and> (\<forall>h2. count_list (drop (length (trace h2))
                  (trace (subscribe_end cause \<lparr>s_room = raw, s_conn = c, s_cancel = cancel\<rparr> h2)))
                  (EvDelete raw c) = 1
            \<and> count_list (drop (length (trace h2))
                  (trace (subscribe_end cause \<lparr>s_room = raw, s_conn = c, s_cancel = cancel\<rparr> h2)))
                  (EvClose c) = 1
            \<and> (\<forall>m. subscribes (subscribe_end cause \<lparr>s_room = raw, s_conn = c, s_cancel = cancel\<rparr> h2) raw
                       = Some m \<longrightarrow> m c = None))"
  using assms
    handleSubscribe_closed [of uuid_Parse raw u GetRoom room Upgrade w c cancel cause h]
    handleSubscribe_closed [of uuid_Parse raw u GetRoom room Upgrade w c cancel ParentDone h]
    handleSubscribe_closed [of uuid_Parse raw u GetRoom room Upgrade w c cancel CancelCalled h]
  by (auto simp: subscribe_end_eq dest: unregister_conn_removed)

theorem C3_witness:
  "handleSubscribe (\<lambda>s. Some 7) (\<lambda>u. Inr ()) (\<lambda>w. Inr 1) 9 (Some CancelCalled)
       ''0e2a'' newResponseWriter NewHandler =
     (Closed \<lparr>s_room = ''0e2a'', s_conn = 1, s_cancel = 9\<rparr>,
      \<lparr>subscribes = [''0e2a'' \<mapsto> Map.empty],
       trace = [EvGetRoom 7, EvUpgradeOk 1, EvLock, EvInfo ''new client connected'',
                EvInsert ''0e2a'' 1, EvUnlock, EvLock, EvDelete ''0e2a'' 1, EvUnlock, EvClose 1]\<rparr>)
   \<and> count_list [EvGetRoom 7, EvUpgradeOk 1, EvLock, EvInfo ''new client connected'',
                EvInsert ''0e2a'' 1, EvUnlock, EvLock, EvDelete ''0e2a'' 1, EvUnlock, EvClose 1]
        (EvClose 1) = 1"
  using C3_teardown_exactly_once [of "\<lambda>s. Some 7" "''0e2a''" 7 "\<lambda>u. Inr ()" "()" "\<lambda>w. Inr 1"
      newResponseWriter 1 9 CancelCalled NewHandler
      "Closed \<lparr>s_room = ''0e2a'', s_conn = 1, s_cancel = 9\<rparr>"
      "\<lparr>subscribes = [''0e2a'' \<mapsto> Map.empty],
       trace = [EvGetRoom 7, EvUpgradeOk 1, EvLock, EvInfo ''new client connected'',
                EvInsert ''0e2a'' 1, EvUnlock, EvLock, EvDelete ''0e2a'' 1, EvUnlock, EvClose 1]\<rparr>"]
  by (simp add: handleSubscribe_closed [of _ _ 7 _ "()"] NewHandler_def unregister_conn_def)

text \<open>
  C9. The registry is keyed by the raw text of the room id, not by the parsed value.
  For any two different texts that parse to the same UUID, a first session subscribing
  with one and a second with the other end up in two entries of the registry, each
  text's entry gaining only its own connection. The session that the handler keeps
  carries the same raw text for the insertion and for the removal: the teardown of
  either session removes its connection from its own entry and leaves the other entry
  as it was. Which texts parse to the same UUID is decided by \<open>uuid.Parse\<close>, an
  argument here.
\<close>

theorem C9_registry_keyed_by_raw_string:
  assumes "r1 \<noteq> r2" and "uuid_Parse r1 = Some u" and "uuid_Parse r2 = Some u"
    and "GetRoom u = Inr room" and "Upgrade1 w1 = Inr c1" and "Upgrade2 w2 = Inr c2"
    and "subscribe_begin uuid_Parse GetRoom Upgrade1 k1 r1 w1 h = (o1, h1)"
    and "subscribe_begin uuid_Parse GetRoom Upgrade2 k2 r2 w2 h1 = (o2, h2)"
  shows "o1 = Waiting \<lparr>s_room = r1, s_conn = c1, s_cancel = k1\<rparr>
     \<and> o2 = Waiting \<lparr>s_room = r2, s_conn = c2, s_cancel = k2\<rparr>
     \<and> subscribes h2 r1 = Some ((case subscribes h r1 of None \<Rightarrow> Map.empty | Some m \<Rightarrow> m)(c1 \<mapsto> k1))
     \<and> subscribes h2 r2 = Some ((case subscribes h r2 of None \<Rightarrow> Map.empty | Some m \<Rightarrow> m)(c2 \<mapsto> k2))
     \<and> subscribes (subscribe_end cause \<lparr>s_room = r1, s_conn = c1, s_cancel = k1\<rparr> h2) r1 =
           Some ((case subscribes h r1 of None \<Rightarrow> Map.empty | Some m \<Rightarrow> m)(c1 := None))
     \<and> subscribes (subscribe_end cause \<lparr>s_room = r1, s_conn = c1, s_cancel = k1\<rparr> h2) r2 =
           subscribes h2 r2
     \<and> subscribes (subscribe_end cause \<lparr>s_room = r2, s_conn = c2, s_cancel = k2\<rparr> h2) r2 =
           Some ((case subscribes h r2 of None \<Rightarrow> Map.empty | Some m \<Rightarrow> m)(c2 := None))
     \<and> subscribes (subscribe_end cause \<lparr>s_room = r2, s_conn = c2, s_cancel = k2\<rparr> h2) r1 =
           subscribes h2 r1"
proof -
  have b1: "o1 = Waiting \<lparr>s_room = r1, s_conn = c1, s_cancel = k1\<rparr>"
    "h1 = h\<lparr>subscribes := (subscribes h)(r1 \<mapsto>
             (case subscribes h r1 of None \<Rightarrow> Map.empty | Some m \<Rightarrow> m)(c1 \<mapsto> k1)),
        trace := trace h @ [EvGetRoom u, EvUpgradeOk c1, EvLock, EvInfo ''new client connected'',
                           EvInsert r1 c1, EvUnlock]\<rparr>"
    using assms(2,4,5,7) subscribe_begin_ok [of uuid_Parse r1 u GetRoom room Upgrade1 w1 c1 k1 h]
    by auto
  have b2: "o2 = Waiting \<lparr>s_room = r2, s_conn = c2, s_cancel = k2\<rparr>"
    "h2 = h1\<lparr>subscribes := (subscribes h1)(r2 \<mapsto>
             (case subscribes h1 r2 of None \<Rightarrow> Map.empty | Some m \<Rightarrow> m)(c2 \<mapsto> k2)),
        trace := trace h1 @ [EvGetRoom u, EvUpgradeOk c2, EvLock, EvInfo ''new client connected'',
                           EvInsert r2 c2, EvUnlock]\<rparr>"
    using assms(3,4,6,8) subscribe_begin_ok [of uuid_Parse r2 u GetRoom room Upgrade2 w2 c2 k2 h1]
    by auto
  show ?thesis
    using assms(1) by (simp add: b1 b2 subscribe_end_eq unregister_conn_def)
qed

theorem C9_witness:
  "''6f1c2d3e-0000-4000-8000-00000000000a'' \<noteq> ''6F1C2D3E-0000-4000-8000-00000000000A''
   \<and> subscribe_begin
        (\<lambda>s. if s = ''6f1c2d3e-0000-4000-8000-00000000000a'' \<or> s = ''6F1C2D3E-0000-4000-8000-00000000000A'' then Some 7 else None)
        (\<lambda>u. Inr ()) (\<lambda>w. Inr 1) 11 ''6f1c2d3e-0000-4000-8000-00000000000a'' newResponseWriter NewHandler
       = (Waiting \<lparr>s_room = ''6f1c2d3e-0000-4000-8000-00000000000a'', s_conn = 1, s_cancel = 11\<rparr>,
          \<lparr>subscribes = [''6f1c2d3e-0000-4000-8000-00000000000a'' \<mapsto> [1 \<mapsto> 11]],
           trace = [EvGetRoom 7, EvUpgradeOk 1, EvLock, EvInfo ''new client connected'',
                    EvInsert ''6f1c2d3e-0000-4000-8000-00000000000a'' 1, EvUnlock]\<rparr>)
   \<and> subscribes (snd (subscribe_begin
        (\<lambda>s. if s = ''6f1c2d3e-0000-4000-8000-00000000000a'' \<or> s = ''6F1C2D3E-0000-4000-8000-00000000000A'' then Some 7 else None)
        (\<lambda>u. Inr ()) (\<lambda>w. Inr 2) 12 ''6F1C2D3E-0000-4000-8000-00000000000A'' newResponseWriter
          \<lparr>subscribes = [''6f1c2d3e-0000-4000-8000-00000000000a'' \<mapsto> [1 \<mapsto> 11]],
           trace = [EvGetRoom 7, EvUpgradeOk 1, EvLock, EvInfo ''new client connected'',
                    EvInsert ''6f1c2d3e-0000-4000-8000-00000000000a'' 1, EvUnlock]\<rparr>))
        ''6f1c2d3e-0000-4000-8000-00000000000a'' = Some [1 \<mapsto> 11]
   \<and> subscribes (snd (subscribe_begin
        (\<lambda>s. if s = ''6f1c2d3e-0000-4000-8000-00000000000a'' \<or> s = ''6F1C2D3E-0000-4000-8000-00000000000A'' then Some 7 else None)
        (\<lambda>u. Inr ()) (\<lambda>w. Inr 2) 12 ''6F1C2D3E-0000-4000-8000-00000000000A'' newResponseWriter
          \<lparr>subscribes = [''6f1c2d3e-0000-4000-8000-00000000000a'' \<mapsto> [1 \<mapsto> 11]],
           trace = [EvGetRoom 7, EvUpgradeOk 1, EvLock, EvInfo ''new client connected'',
                    EvInsert ''6f1c2d3e-0000-4000-8000-00000000000a'' 1, EvUnlock]\<rparr>))
        ''6F1C2D3E-0000-4000-8000-00000000000A'' = Some [2 \<mapsto> 12]"
  using C9_registry_keyed_by_raw_string
     [of "''6f1c2d3e-0000-4000-8000-00000000000a''" "''6F1C2D3E-0000-4000-8000-00000000000A''"
         "\<lambda>s. if s = ''6f1c2d3e-0000-4000-8000-00000000000a'' \<or> s = ''6F1C2D3E-0000-4000-8000-00000000000A'' then Some 7 else None"
         7 "\<lambda>u. Inr ()" "()" "\<lambda>w. Inr 1" newResponseWriter 1 "\<lambda>w. Inr 2" newResponseWriter 2
         11 NewHandler
         "Waiting \<lparr>s_room = ''6f1c2d3e-0000-4000-8000-00000000000a'', s_conn = 1, s_cancel = 11\<rparr>"
         "\<lparr>subscribes = [''6f1c2d3e-0000-4000-8000-00000000000a'' \<mapsto> [1 \<mapsto> 11]],
           trace = [EvGetRoom 7, EvUpgradeOk 1, EvLock, EvInfo ''new client connected'',
                    EvInsert ''6f1c2d3e-0000-4000-8000-00000000000a'' 1, EvUnlock]\<rparr>"
         12
         "fst (subscribe_begin
        (\<lambda>s. if s = ''6f1c2d3e-0000-4000-8000-00000000000a'' \<or> s = ''6F1C2D3E-0000-4000-8000-00000000000A'' then Some 7 else None)
        (\<lambda>u. Inr ()) (\<lambda>w. Inr 2) 12 ''6F1C2D3E-0000-4000-8000-00000000000A'' newResponseWriter
          \<lparr>subscribes = [''6f1c2d3e-0000-4000-8000-00000000000a'' \<mapsto> [1 \<mapsto> 11]],
           trace = [EvGetRoom 7, EvUpgradeOk 1, EvLock, EvInfo ''new client connected'',
                    EvInsert ''6f1c2d3e-0000-4000-8000-00000000000a'' 1, EvUnlock]\<rparr>)"
         "snd (subscribe_begin
        (\<lambda>s. if s = ''6f1c2d3e-0000-4000-8000-00000000000a'' \<or> s = ''6F1C2D3E-0000-4000-8000-00000000000A'' then Some 7 else None)
        (\<lambda>u. Inr ()) (\<lambda>w. Inr 2) 12 ''6F1C2D3E-0000-4000-8000-00000000000A'' newResponseWriter
          \<lparr>subscribes = [''6f1c2d3e-0000-4000-8000-00000000000a'' \<mapsto> [1 \<mapsto> 11]],
           trace = [EvGetRoom 7, EvUpgradeOk 1, EvLock, EvInfo ''new client connected'',
                    EvInsert ''6f1c2d3e-0000-4000-8000-00000000000a'' 1, EvUnlock]\<rparr>)"
         ParentDone]
  by (simp add: subscribe_begin_ok [of _ _ 7 _ "()"] NewHandler_def)

text \<open>
  C10. When the request body has decoded and the room has been inserted,
  \<open>handleCreateRoom\<close> answers on a fresh response writer with the status 200, the
  content type \<open>application/json\<close> and the encoding of the JSON object whose only key is
  \<open>ID\<close> and whose value is the string form of the new room's UUID. The key is the Go
  field name because the tag lookup for \<open>json\<close> finds nothing in the tag text. The
  error of the write changes nothing in what the handler does, and the error of the
  marshalling is not looked at. The registry is as it was.
\<close>

theorem C10_create_room_response:
  assumes "InsertRoom theme = Inr roomId" and "status w = None"
    and "handleCreateRoom (Some theme) InsertRoom uuid_String enc write_err w h = (w', h')"
  shows "status w' = Some StatusOK
     \<and> header w' ''Content-Type'' = Some ''application/json''
     \<and> body w' = body w @ enc (JObject [(''ID'', JString (uuid_String roomId))])
     \<and> StructTag_Lookup (snd (hd response_fields)) ''json'' = None
     \<and> handleCreateRoom (Some theme) InsertRoom uuid_String enc None w h = (w', h')
     \<and> trace h' = trace h @ [EvInsertRoom theme] \<and> subscribes h' = subscribes h"
  using assms
    handleCreateRoom_ok [of InsertRoom theme roomId uuid_String enc write_err w h]
    handleCreateRoom_ok [of InsertRoom theme roomId uuid_String enc None w h]
  by (auto simp: Write_def WriteHeader_def Header_Set_def emit_def response_tag_ignored)

theorem C10_witness:
  "handleCreateRoom (Some ''ask-me-anything'') (\<lambda>t. Inr 7)
       (\<lambda>u. ''6f1c2d3e-0000-4000-8000-00000000000a'')
       (\<lambda>j. case j of JString s \<Rightarrow> s | JObject kvs \<Rightarrow> concat (map fst kvs))
       (Some ''broken pipe'') newResponseWriter NewHandler =
     (\<lparr>header = [''Content-Type'' \<mapsto> ''application/json''], status = Some StatusOK, body = ''ID''\<rparr>,
      \<lparr>subscribes = Map.empty, trace = [EvInsertRoom ''ask-me-anything'']\<rparr>)"
  using C10_create_room_response [of "\<lambda>t. Inr 7" "''ask-me-anything''" 7 newResponseWriter
       "\<lambda>u. ''6f1c2d3e-0000-4000-8000-00000000000a''"
       "\<lambda>j. case j of JString s \<Rightarrow> s | JObject kvs \<Rightarrow> concat (map fst kvs)"
       "Some ''broken pipe''" NewHandler
       "\<lparr>header = [''Content-Type'' \<mapsto> ''application/json''], status = Some StatusOK, body = ''ID''\<rparr>"
       "\<lparr>subscribes = Map.empty, trace = [EvInsertRoom ''ask-me-anything'']\<rparr>"]
  by (simp add: handleCreateRoom_ok newResponseWriter_def NewHandler_def Write_def WriteHeader_def
        Header_Set_def emit_def)

text \<open>
  C1, as the code has it. The code has no broadcast. From every state,
  \<open>handleCreateRoomMessage\<close> and each of the six other handlers with an empty body
  leave what has been delivered to the sessions and the registry as they were, and so
  does \<open>handleCreateRoom\<close>. The subscribe handler never sends: its first part delivers
  nothing and removes no connection from any listener set, and its teardown delivers
  nothing and leaves every connection other than its own in its listener set with its
  cancel function. So no event reaches a session, registered before or after, no
  session is removed for a failed delivery, and a session leaves the registry only
  through the teardown of its own handler.
\<close>

theorem C1_no_event_is_delivered:
  "deliveries (snd (handleCreateRoomMessage w h)) = deliveries h
   \<and> subscribes (snd (handleCreateRoomMessage w h)) = subscribes h
   \<and> deliveries (snd (handleReactToMessage w h)) = deliveries h
   \<and> subscribes (snd (handleReactToMessage w h)) = subscribes h
   \<and> deliveries (snd (handleRemoveReactFromMessage w h)) = deliveries h
   \<and> subscribes (snd (handleRemoveReactFromMessage w h)) = subscribes h
   \<and> deliveries (snd (handleMarkMessageAsAnswered w h)) = deliveries h
   \<and> subscribes (snd (handleMarkMessageAsAnswered w h)) = subscribes h
   \<and> deliveries (snd (handleGetRooms w h)) = deliveries h
   \<and> subscribes (snd (handleGetRooms w h)) = subscribes h
   \<and> deliveries (snd (handleGetRoomMessage w h)) = deliveries h
   \<and> subscribes (snd (handleGetRoomMessage w h)) = subscribes h
   \<and> deliveries (snd (handleGetRoomMessages w h)) = deliveries h
   \<and> subscribes (snd (handleGetRoomMessages w h)) = subscribes h
   \<and> deliveries (snd (handleCreateRoom decoded InsertRoom uuid_String enc write_err w h)) = deliveries h
   \<and> subscribes (snd (handleCreateRoom decoded InsertRoom uuid_String enc write_err w h)) = subscribes h
   \<and> deliveries (snd (subscribe_begin uuid_Parse GetRoom Upgrade cancel raw w h)) = deliveries h
   \<and> (\<forall>r m c. subscribes h r = Some m \<and> m c \<noteq> None \<longrightarrow>
          (\<exists>m'. subscribes (snd (subscribe_begin uuid_Parse GetRoom Upgrade cancel raw w h)) r = Some m'
                \<and> m' c \<noteq> None))
   \<and> deliveries (subscribe_end cause s h) = deliveries h
   \<and> (\<forall>r m c. subscribes h r = Some m \<and> (r \<noteq> s_room s \<or> c \<noteq> s_conn s) \<longrightarrow>
          (\<exists>m'. subscribes (subscribe_end cause s h) r = Some m' \<and> m' c = m c))"
proof -
  have stubs:
    "handleCreateRoomMessage w h = (w, h)" "handleReactToMessage w h = (w, h)"
    "handleRemoveReactFromMessage w h = (w, h)" "handleMarkMessageAsAnswered w h = (w, h)"
    "handleGetRooms w h = (w, h)" "handleGetRoomMessage w h = (w, h)"
    "handleGetRoomMessages w h = (w, h)"
    by (simp_all add: handleCreateRoomMessage_def handleReactToMessage_def
          handleRemoveReactFromMessage_def handleMarkMessageAsAnswered_def
          handleGetRooms_def handleGetRoomMessage_def handleGetRoomMessages_def)
  show ?thesis
    unfolding stubs snd_conv deliveries_subscribe_begin deliveries_subscribe_end
      handleCreateRoom_keeps [THEN conjunct1] handleCreateRoom_keeps [THEN conjunct2]
    using subscribe_begin_keeps [of h uuid_Parse GetRoom Upgrade cancel raw w]
      subscribe_end_keeps [of h s cause]
    by (intro conjI refl)
qed

theorem C1_witness:
  "subscribes \<lparr>subscribes = [''0e2a'' \<mapsto> [1 \<mapsto> 9]], trace = [EvSend 1 ''earlier'']\<rparr> ''0e2a''
      = Some [1 \<mapsto> 9]
   \<and> [1 \<mapsto> (9::nat)] (1::nat) \<noteq> None
   \<and> deliveries (snd (handleCreateRoomMessage newResponseWriter
        \<lparr>subscribes = [''0e2a'' \<mapsto> [1 \<mapsto> 9]], trace = [EvSend 1 ''earlier'']\<rparr>)) = [(1, ''earlier'')]
   \<and> subscribes (snd (handleCreateRoomMessage newResponseWriter
        \<lparr>subscribes = [''0e2a'' \<mapsto> [1 \<mapsto> 9]], trace = [EvSend 1 ''earlier'']\<rparr>)) ''0e2a''
      = Some [1 \<mapsto> 9]
   \<and> subscribes (snd (subscribe_begin (\<lambda>s. Some 7) (\<lambda>u. Inr ()) (\<lambda>w. Inr 2) 5 ''0e2a''
        newResponseWriter
        \<lparr>subscribes = [''0e2a'' \<mapsto> [1 \<mapsto> 9]], trace = [EvSend 1 ''earlier'']\<rparr>)) ''0e2a''
      = Some [1 \<mapsto> 9, 2 \<mapsto> 5]
   \<and> subscribes (subscribe_end ParentDone \<lparr>s_room = ''0e2a'', s_conn = 2, s_cancel = 5\<rparr>
        \<lparr>subscribes = [''0e2a'' \<mapsto> [1 \<mapsto> 9]], trace = [EvSend 1 ''earlier'']\<rparr>) ''0e2a''
      = Some [1 \<mapsto> 9]"
  using C1_no_event_is_delivered [of newResponseWriter
      "\<lparr>subscribes = [''0e2a'' \<mapsto> [1 \<mapsto> 9]], trace = [EvSend 1 ''earlier'']\<rparr>"
      "Some ''theme''" "\<lambda>t. Inr 7" "\<lambda>u. ''x''" "\<lambda>j. ''j''" None
      "\<lambda>s. Some 7" "\<lambda>u. Inr ()" "\<lambda>w. Inr 2" 5 "''0e2a''" ParentDone
      "\<lparr>s_room = ''0e2a'', s_conn = 2, s_cancel = 5\<rparr>"]
  by (simp add: deliveries_def map_filter_def handleCreateRoomMessage_def
        subscribe_begin_ok [of _ _ 7 _ "()"] subscribe_end_eq unregister_conn_def)

text \<open>
  C1, as stated: after one session has subscribed to a room, that session is in the
  room's listener set, and the handler that creates a message in the room delivers
  nothing to it.
\<close>

theorem C1_counterexample:
  "subscribes (snd (subscribe_begin (\<lambda>s. Some 7) (\<lambda>u. Inr ()) (\<lambda>w. Inr 1) 9 ''0e2a''
        newResponseWriter NewHandler)) ''0e2a'' = Some [1 \<mapsto> 9]
   \<and> deliveries (snd (handleCreateRoomMessage newResponseWriter
        (snd (subscribe_begin (\<lambda>s. Some 7) (\<lambda>u. Inr ()) (\<lambda>w. Inr 1) 9 ''0e2a''
           newResponseWriter NewHandler)))) = []"
  by (simp add: subscribe_begin_ok [of _ _ 7 _ "()"] handleCreateRoomMessage_def NewHandler_def
        deliveries_def map_filter_def)

end
